theory Spec2Isabelle
  imports Complex_Main "HOL-Library.Signed_Division"
begin

section \<open>The star editor of the library view (src/library/stareditor.cpp)\<close>

text \<open>
  \<open>StarEditor\<close> is the in-place widget with which a star rating is edited by the mouse.
  The embedding below follows stareditor.cpp function by function. Toolkit objects are
  reduced to the parts the file reads or writes; calls into the toolkit that the file
  makes (\<open>update()\<close>, \<open>emit editingFinished()\<close>, calls on the painter) are recorded
  as values, in the order the code makes them.
\<close>

subsection \<open>Integers, divisions and the double comparisons\<close>

text \<open>
  The C++ \<open>int\<close> values are pixel coordinates, widths and star counts, far from the
  bounds of a 32-bit integer; they are modelled as \<open>int\<close>. Integer division in C++
  truncates towards zero (\<open>sdiv\<close>) and is undefined for a zero divisor: a division is
  therefore a partial operation that yields the fault \<open>DivisionByZero\<close> instead of a
  number.
\<close>

datatype fault = DivisionByZero

definition c_div :: "int \<Rightarrow> int \<Rightarrow> fault + int" where
  "c_div a b = (if b = 0 then Inl DivisionByZero else Inr (a sdiv b))"

text \<open>
  Three comparisons of \<open>starAtPosition\<close> are made in \<open>double\<close>:
  an \<open>int\<close> against \<open>starsWidth * 0.05\<close> or \<open>starsWidth * -0.05\<close>. They are
  modelled over \<open>real\<close> with the exact factor \<open>5 / 100\<close>. For 32-bit operands this
  decides every comparison as the machine does: the conversion of an \<open>int\<close> to
  \<open>double\<close> is exact; the \<open>double\<close> nearest to 0.05 is \<open>0.05 * (1 + 2^-54)\<close>, so the
  product with a multiple \<open>20 * k\<close> of twenty is \<open>k * (1 + 2^-54)\<close>, which rounds to
  \<open>k\<close> itself; and for any other width the exact product is at least \<open>1 / 20\<close> away
  from every integer, while the rounded product is within \<open>2^-25\<close> of the exact one.
\<close>

subsection \<open>Toolkit value types\<close>

record QSize =
  size_width :: int
  size_height :: int

record QRect =
  rect_x :: int
  rect_y :: int
  rect_width :: int
  rect_height :: int

text \<open>The flags of \<open>QStyle::State\<close>; a state is the set of the flags that are set.\<close>

datatype StateFlag =
    State_Enabled
  | State_Active
  | State_Selected
  | State_MouseOver
  | State_HasFocus
  | State_Other nat

datatype ColorGroup = Normal | Disabled | Inactive

datatype ColorRole = Text | HighlightedText

type_synonym QColor = nat

type_synonym QPalette = "ColorGroup \<Rightarrow> ColorRole \<Rightarrow> QColor"

record QStyleOptionViewItem =
  state :: "StateFlag set"
  rect :: QRect
  palette :: QPalette

type_synonym QModelIndex = "int \<times> int"

record QItemSelectionModel =
  selectedIndexes :: "QModelIndex set"

definition isSelected :: "QItemSelectionModel \<Rightarrow> QModelIndex \<Rightarrow> bool" where
  "isSelected selectionModel index = (index \<in> selectedIndexes selectionModel)"

datatype QStyle = QStyle nat

text \<open>
  A table view as far as the editor asks it: its style and its selection model, either of
  which may be a null pointer (\<open>None\<close>).
\<close>

record QTableView =
  style :: "QStyle option"
  selectionModel :: "QItemSelectionModel option"

datatype MouseButton = LeftButton | RightButton | MiddleButton | NoButton

text \<open>
  A mouse event carries the button and the horizontal position, already as the
  \<open>int\<close> the handler works with.
\<close>

record QMouseEvent =
  button :: MouseButton
  event_x :: int

subsection \<open>The rating value\<close>

text \<open>
  Modelled from the spec: the class \<open>StarRating\<close> (library/starrating.h) is not among
  the sources. The spec describes it as the rating value with \<open>starCount()\<close>,
  \<open>setStarCount(int)\<close>, \<open>maxStarCount()\<close> (fixed per instance) and \<open>sizeHint()\<close>, the
  natural size of the full star strip. The size hint is kept as a field of its own, so
  that nothing is assumed about how it is computed.
\<close>

record StarRating =
  starCount :: int
  maxStarCount :: int
  sizeHint :: QSize

text \<open>
  Modelled from the spec: \<open>StarRating::setStarCount\<close> stores the given count as the
  displayed count.
\<close>

definition setStarCount :: "StarRating \<Rightarrow> int \<Rightarrow> StarRating" where
  "setStarCount r n = r\<lparr>starCount := n\<rparr>"

text \<open>
  Modelled from the spec: \<open>StarRating::kMinStarCount\<close> is the least valid count. The
  spec gives the range of a count as \<open>[0, maxStarCount]\<close>.
\<close>

definition kMinStarCount :: int where
  "kMinStarCount = 0"

definition kInvalidStarCount :: int where
  "kInvalidStarCount = kMinStarCount - 1"

subsection \<open>The editor object and what its handlers do to the outside\<close>

record StarEditor =
  m_pTableView :: "QTableView option"
  m_index :: QModelIndex
  m_styleOption :: QStyleOptionViewItem
  m_starRating :: StarRating
  m_starCount :: int
  mouseTracking :: bool

text \<open>
  Modelled from the spec: \<open>PainterScope\<close> (util/painterscope.h) is not among the
  sources. By the spec it scopes all changes of the drawing state, so that they are
  reverted on exit; its construction and its destruction are recorded as the calls
  \<open>Save\<close> and \<open>Restore\<close>. The other constructors are the calls that
  \<open>renderHelper\<close> itself makes on the painter and on the style.
\<close>

datatype PainterCall =
    Save
  | SetClipRect QRect
  | DrawControl QStyle QStyleOptionViewItem
  | SetBrush QColor
  | PaintStars StarRating QRect
  | Restore

fun is_SetBrush :: "PainterCall \<Rightarrow> bool" where
  "is_SetBrush (SetBrush c) = True"
| "is_SetBrush other = False"

text \<open>
  What a handler does besides changing the editor: a repaint request (\<open>update()\<close>), the
  signal \<open>editingFinished\<close>, or a painting.
\<close>

datatype Effect =
    Update
  | EditingFinished
  | Painted "PainterCall list"

text \<open>
  Modelled from the spec: the default constructor of \<open>StarRating\<close>, which initialises
  the member \<open>m_starRating\<close> of a new editor. By the spec the initial displayed rating
  is the configured minimum; the maximum and the size hint are parameters.
\<close>

definition StarRating_new :: "int \<Rightarrow> QSize \<Rightarrow> StarRating" where
  "StarRating_new maxStars hint =
     \<lparr>starCount = kMinStarCount, maxStarCount = maxStars, sizeHint = hint\<rparr>"

text \<open>The constructor of the editor; it also turns mouse tracking on.\<close>

definition StarEditor_new ::
  "QTableView option \<Rightarrow> QModelIndex \<Rightarrow> QStyleOptionViewItem \<Rightarrow> int \<Rightarrow> QSize \<Rightarrow> StarEditor" where
  "StarEditor_new pTableView index option maxStars hint =
     \<lparr>m_pTableView = pTableView,
      m_index = index,
      m_styleOption = option,
      m_starRating = StarRating_new maxStars hint,
      m_starCount = kMinStarCount,
      mouseTracking = True\<rparr>"

subsection \<open>renderHelper and paintEvent\<close>

definition renderHelper ::
  "QTableView option \<Rightarrow> QStyleOptionViewItem \<Rightarrow> StarRating \<Rightarrow> PainterCall list" where
  "renderHelper pTableView option pStarRating =
     [Save, SetClipRect (rect option)]
     @ (case pTableView of
          None \<Rightarrow> []
        | Some tableView \<Rightarrow>
            (case style tableView of
               None \<Rightarrow> []
             | Some st \<Rightarrow> [DrawControl st option]))
     @ (let cg0 = (if State_Enabled \<in> state option then Normal else Disabled);
            cg = (if cg0 = Normal \<and> \<not> (State_Active \<in> state option) then Inactive else cg0)
        in if State_Selected \<in> state option
           then [SetBrush (palette option cg HighlightedText)]
           else [SetBrush (palette option cg Text)])
     @ [PaintStars pStarRating (rect option), Restore]"

text \<open>
  \<open>paintEvent\<close>; the argument \<open>widgetRect\<close> is what \<open>QWidget::rect()\<close> returns at
  the time of the call.
\<close>

definition paintEvent :: "StarEditor \<Rightarrow> QRect \<Rightarrow> Effect list \<times> StarEditor" where
  "paintEvent ed widgetRect =
     (let opt1 = (m_styleOption ed)\<lparr>state := state (m_styleOption ed) \<union> {State_MouseOver}\<rparr>;
          opt2 = opt1\<lparr>rect := widgetRect\<rparr>;
          opt3 = (case m_pTableView ed of
                    None \<Rightarrow> opt2
                  | Some tableView \<Rightarrow>
                      (case selectionModel tableView of
                         None \<Rightarrow> opt2
                       | Some sm \<Rightarrow>
                           if isSelected sm (m_index ed)
                           then opt2\<lparr>state := state opt2 \<union> {State_Selected}\<rparr>
                           else opt2));
          ed' = ed\<lparr>m_styleOption := opt3\<rparr>
      in ([Painted (renderHelper (m_pTableView ed') (m_styleOption ed') (m_starRating ed'))], ed'))"

text \<open>
  The condition under which \<open>paintEvent\<close> sets \<open>State_Selected\<close>: there is a table
  view, it has a selection model, and the model reports the edited index as selected.
\<close>

definition viewSelects :: "StarEditor \<Rightarrow> bool" where
  "viewSelects ed =
     (case m_pTableView ed of
        None \<Rightarrow> False
      | Some tableView \<Rightarrow>
          (case selectionModel tableView of
             None \<Rightarrow> False
           | Some sm \<Rightarrow> isSelected sm (m_index ed)))"

subsection \<open>starAtPosition\<close>

definition xOffset :: "int \<Rightarrow> int \<Rightarrow> int" where
  "xOffset cellWidth starsWidth = max ((cellWidth - starsWidth) sdiv 2) 0"

definition leftVoid :: "int \<Rightarrow> int \<Rightarrow> real" where
  "leftVoid cellWidth starsWidth =
     (if real_of_int (xOffset cellWidth starsWidth) > real_of_int starsWidth * (5 / 100)
      then real_of_int starsWidth * (- (5 / 100))
      else 0)"

text \<open>
  The body of \<open>StarEditor::starAtPosition\<close>, as a function of the three numbers it
  reads from the editor (the width of the style option's rectangle, the width of the
  rating's size hint, the maximal star count) and of the position \<open>x0\<close>.
\<close>

definition starAtPosition :: "int \<Rightarrow> int \<Rightarrow> int \<Rightarrow> int \<Rightarrow> fault + int" where
  "starAtPosition cellWidth starsWidth maxStars x0 =
     (let x = x0 - max (xOffset cellWidth starsWidth) 0 in
      if real_of_int x < leftVoid cellWidth starsWidth \<or> x \<ge> starsWidth
      then Inr kInvalidStarCount
      else if real_of_int x < real_of_int starsWidth * (5 / 100)
      then Inr 0
      else (case c_div starsWidth maxStars of
              Inl f \<Rightarrow> Inl f
            | Inr perStar \<Rightarrow>
                (case c_div x perStar of
                   Inl f \<Rightarrow> Inl f
                 | Inr q \<Rightarrow>
                     (let star = q + 1 in
                      if star \<le> 0 \<or> star > maxStars then Inr 0 else Inr star))))"

definition StarEditor_starAtPosition :: "StarEditor \<Rightarrow> int \<Rightarrow> fault + int" where
  "StarEditor_starAtPosition ed x =
     starAtPosition (rect_width (rect (m_styleOption ed)))
                    (size_width (sizeHint (m_starRating ed)))
                    (maxStarCount (m_starRating ed)) x"

subsection \<open>The event handlers\<close>

text \<open>
  Modelled from the spec: \<open>StarEditor::resetRating\<close> is declared in stareditor.h, which
  is not among the sources. By the spec it resets the displayed rating to the
  last-confirmed value and redraws.
\<close>

definition resetRating :: "StarEditor \<Rightarrow> Effect list \<times> StarEditor" where
  "resetRating ed =
     ([Update], ed\<lparr>m_starRating := setStarCount (m_starRating ed) (m_starCount ed)\<rparr>)"

definition mouseMoveEvent :: "StarEditor \<Rightarrow> QMouseEvent \<Rightarrow> fault + (Effect list \<times> StarEditor)" where
  "mouseMoveEvent ed event =
     (let eventPosition = event_x event in
      case StarEditor_starAtPosition ed eventPosition of
        Inl f \<Rightarrow> Inl f
      | Inr star \<Rightarrow>
          if star \<le> kInvalidStarCount then Inr (resetRating ed)
          else if star \<noteq> starCount (m_starRating ed)
          then Inr ([Update], ed\<lparr>m_starRating := setStarCount (m_starRating ed) star\<rparr>)
          else Inr ([], ed))"

definition leaveEvent :: "StarEditor \<Rightarrow> Effect list \<times> StarEditor" where
  "leaveEvent ed = resetRating ed"

definition mouseReleaseEvent :: "StarEditor \<Rightarrow> QMouseEvent \<Rightarrow> Effect list \<times> StarEditor" where
  "mouseReleaseEvent ed event = ([EditingFinished], ed)"

subsection \<open>The lifetime of an editor\<close>

text \<open>
  The events the windowing system delivers to the widget, and the run of the editor over
  a sequence of them. The run collects the effects; it stops with the fault when a
  handler divides by zero.
\<close>

datatype Event =
    MouseMove QMouseEvent
  | Leave
  | MouseRelease QMouseEvent
  | Paint QRect

fun handle :: "StarEditor \<Rightarrow> Event \<Rightarrow> fault + (Effect list \<times> StarEditor)" where
  "handle ed (MouseMove e) = mouseMoveEvent ed e"
| "handle ed Leave = Inr (leaveEvent ed)"
| "handle ed (MouseRelease e) = Inr (mouseReleaseEvent ed e)"
| "handle ed (Paint r) = Inr (paintEvent ed r)"

fun run :: "StarEditor \<Rightarrow> Event list \<Rightarrow> fault + (Effect list \<times> StarEditor)" where
  "run ed [] = Inr ([], ed)"
| "run ed (e # es) =
     (case handle ed e of
        Inl f \<Rightarrow> Inl f
      | Inr (effs, ed') \<Rightarrow>
          (case run ed' es of
             Inl f \<Rightarrow> Inl f
           | Inr (effs', ed'') \<Rightarrow> Inr (effs @ effs', ed'')))"

text \<open>The displayed count and the last-confirmed count are valid counts.\<close>

definition countsInRange :: "StarEditor \<Rightarrow> bool" where
  "countsInRange ed =
     (0 \<le> starCount (m_starRating ed)
      \<and> starCount (m_starRating ed) \<le> maxStarCount (m_starRating ed)
      \<and> 0 \<le> m_starCount ed
      \<and> m_starCount ed \<le> maxStarCount (m_starRating ed))"

subsection \<open>A concrete editing session\<close>

text \<open>
  A cell of 140 by 20 pixels in a table view whose selection is empty, edited with a
  strip of five stars that is 100 pixels wide: the strip is drawn 20 pixels from the
  left edge of the cell. The theorems below are exercised on this editor.
\<close>

definition sampleOption :: QStyleOptionViewItem where
  "sampleOption =
     \<lparr>state = {State_Enabled, State_Active},
      rect = \<lparr>rect_x = 0, rect_y = 0, rect_width = 140, rect_height = 20\<rparr>,
      palette = (\<lambda>cg role. case role of Text \<Rightarrow> 2 | HighlightedText \<Rightarrow> 3)\<rparr>"

definition sampleView :: QTableView where
  "sampleView = \<lparr>style = Some (QStyle 0), selectionModel = Some \<lparr>selectedIndexes = {}\<rparr>\<rparr>"

definition sampleEditor :: StarEditor where
  "sampleEditor =
     StarEditor_new (Some sampleView) (3, 7) sampleOption 5 \<lparr>size_width = 100, size_height = 20\<rparr>"

definition mouseAt :: "int \<Rightarrow> QMouseEvent" where
  "mouseAt x = \<lparr>button = NoButton, event_x = x\<rparr>"

section \<open>Arithmetic of the cells\<close>

lemma sdiv_nonneg_pos: "0 \<le> a \<Longrightarrow> 0 < b \<Longrightarrow> a sdiv b = a div (b::int)"
  by (cases "a = 0") (simp_all add: signed_divide_int_def)

lemma mult_div_le_int: "0 < (p::int) \<Longrightarrow> p * (x div p) \<le> x"
proof -
  assume p: "0 < p"
  have "p * (x div p) + x mod p = x" by simp
  moreover from p have "0 \<le> x mod p" by simp
  ultimately show ?thesis by linarith
qed

lemma div_less_of_less_mult: "x < m * p \<Longrightarrow> 0 < p \<Longrightarrow> x div p < (m::int)"
proof -
  assume a: "x < m * p" "0 < p"
  from mult_div_le_int [OF a(2), of x] a(1) have "p * (x div p) < p * m"
    by (simp add: mult.commute)
  with a(2) show ?thesis by (simp add: mult_less_cancel_left_pos)
qed

lemma perStar_pos:
  "1 \<le> maxStars \<Longrightarrow> maxStars \<le> starsWidth \<Longrightarrow> 1 \<le> starsWidth sdiv (maxStars::int)"
proof -
  assume a: "1 \<le> maxStars" "maxStars \<le> starsWidth"
  then have "starsWidth sdiv maxStars = starsWidth div maxStars"
    by (simp add: sdiv_nonneg_pos)
  moreover from a have "1 \<le> starsWidth div maxStars"
    using int_one_le_iff_zero_less pos_imp_zdiv_pos_iff by blast
  ultimately show ?thesis by simp
qed

lemma whole_cells_of_dvd:
  "1 \<le> maxStars \<Longrightarrow> 0 \<le> starsWidth \<Longrightarrow> maxStars dvd starsWidth \<Longrightarrow>
     maxStars * (starsWidth sdiv maxStars) = (starsWidth::int)"
  by (simp add: sdiv_nonneg_pos)

section \<open>The position-to-rating mapper\<close>

lemma xOffset_nonneg: "0 \<le> xOffset cellWidth starsWidth"
  by (simp add: xOffset_def)

lemma leftVoid_nonpos: "0 \<le> starsWidth \<Longrightarrow> leftVoid cellWidth starsWidth \<le> 0"
  by (simp add: leftVoid_def)

text \<open>
  The mapper at a position that lies \<open>x\<close> pixels right of the left end of the strip:
  the shift by \<open>xOffset\<close> is undone, the rest of the body is unchanged.
\<close>

lemma starAtPosition_shifted:
  "starAtPosition cellWidth starsWidth maxStars (x + xOffset cellWidth starsWidth) =
     (if real_of_int x < leftVoid cellWidth starsWidth \<or> x \<ge> starsWidth
      then Inr kInvalidStarCount
      else if real_of_int x < real_of_int starsWidth * (5 / 100)
      then Inr 0
      else (case c_div starsWidth maxStars of
              Inl f \<Rightarrow> Inl f
            | Inr perStar \<Rightarrow>
                (case c_div x perStar of
                   Inl f \<Rightarrow> Inl f
                 | Inr q \<Rightarrow>
                      if q + 1 \<le> 0 \<or> q + 1 > maxStars then Inr 0 else Inr (q + 1))))"
  using xOffset_nonneg [of cellWidth starsWidth]
  by (simp add: starAtPosition_def Let_def max_def cong: sum.case_cong)

text \<open>Whatever the mapper returns is the sentinel, zero, or a count from 1 to the maximum.\<close>

lemma starAtPosition_cases:
  "starAtPosition cellWidth starsWidth maxStars x = Inr s \<Longrightarrow>
     s = kInvalidStarCount \<or> s = 0 \<or> (1 \<le> s \<and> s \<le> maxStars)"
  by (auto simp: starAtPosition_def Let_def split: if_splits sum.splits)

text \<open>With at least one pixel per star no division of the mapper has a zero divisor.\<close>

lemma starAtPosition_defined:
  assumes "1 \<le> maxStars" and "maxStars \<le> starsWidth"
  shows "\<exists>r. starAtPosition cellWidth starsWidth maxStars x = Inr r"
proof -
  from perStar_pos [OF assms] have "starsWidth sdiv maxStars \<noteq> 0" by simp
  with assms(1) show ?thesis
    by (simp add: starAtPosition_def Let_def c_div_def)
qed

text \<open>
  Inside the part of the strip that whole cells of \<open>starsWidth / maxStars\<close> pixels cover,
  and right of the zero zone, the mapper returns the number of the cell.
\<close>

lemma star_formula:
  assumes m: "1 \<le> maxStars" and x0: "0 \<le> x"
    and xr: "x < maxStars * (starsWidth sdiv maxStars)"
    and nz: "\<not> real_of_int x < real_of_int starsWidth * (5 / 100)"
  shows "starAtPosition cellWidth starsWidth maxStars (x + xOffset cellWidth starsWidth)
           = Inr (x div (starsWidth sdiv maxStars) + 1)"
    and "1 \<le> x div (starsWidth sdiv maxStars) + 1"
    and "x div (starsWidth sdiv maxStars) + 1 \<le> maxStars"
proof -
  define p where "p = starsWidth sdiv maxStars"
  have ppos: "0 < p"
  proof (rule ccontr)
    assume "\<not> 0 < p"
    with m have "maxStars * p \<le> 0" by (simp add: mult_nonneg_nonpos)
    with x0 xr show False by (simp add: p_def)
  qed
  have sw0: "0 \<le> starsWidth"
  proof (rule ccontr)
    assume "\<not> 0 \<le> starsWidth"
    with m have "starsWidth sdiv maxStars \<le> 0"
      by (simp add: signed_divide_int_def sgn_if div_nonneg_neg_le0 pos_imp_zdiv_nonneg_iff)
    with ppos show False by (simp add: p_def)
  qed
  with m have pdiv: "p = starsWidth div maxStars" by (simp add: p_def sdiv_nonneg_pos)
  have "maxStars * p \<le> starsWidth" unfolding pdiv
    using m by (simp add: mult_div_le_int)
  with xr have xs: "x < starsWidth" by (simp add: p_def)
  from sw0 have lv: "\<not> real_of_int x < leftVoid cellWidth starsWidth"
    using leftVoid_nonpos [of starsWidth cellWidth] x0 by simp
  have q0: "0 \<le> x div p" using x0 ppos by (simp add: pos_imp_zdiv_nonneg_iff)
  have qm: "x div p < maxStars"
    using xr ppos by (simp add: p_def [symmetric] div_less_of_less_mult)
  from q0 qm show "1 \<le> x div (starsWidth sdiv maxStars) + 1"
    and "x div (starsWidth sdiv maxStars) + 1 \<le> maxStars" by (simp_all add: p_def)
  from qm q0 ppos m lv xs nz x0
  show "starAtPosition cellWidth starsWidth maxStars (x + xOffset cellWidth starsWidth)
           = Inr (x div (starsWidth sdiv maxStars) + 1)"
    by (simp add: starAtPosition_shifted c_div_def p_def [symmetric] sdiv_nonneg_pos)
qed

subsection \<open>Stars and their order\<close>

text \<open>
  Claim C1, as the code has it. Let \<open>x \<le> y\<close> be two positions measured from the left end
  of the strip (that is, after the centering shift), both at or right of the zero zone
  and both inside the part of the strip that \<open>maxStars\<close> whole cells of
  \<open>starsWidth / maxStars\<close> pixels (integer division) cover. Then, for
  \<open>maxStars \<ge> 1\<close>, the mapper returns a count for each, the counts lie between 1 and
  \<open>maxStars\<close>, and the count at \<open>x\<close> is at most the count at \<open>y\<close>. By
  \<open>whole_cells_of_dvd\<close> the whole cells cover all of the strip when \<open>maxStars\<close>
  divides \<open>starsWidth\<close>.
\<close>

theorem starAtPosition_star_range_mono:
  assumes "1 \<le> maxStars" and "0 \<le> x" and "x \<le> y"
    and "y < maxStars * (starsWidth sdiv maxStars)"
    and "\<not> real_of_int x < real_of_int starsWidth * (5 / 100)"
  shows "\<exists>s t. starAtPosition cellWidth starsWidth maxStars (x + xOffset cellWidth starsWidth) = Inr s
           \<and> starAtPosition cellWidth starsWidth maxStars (y + xOffset cellWidth starsWidth) = Inr t
           \<and> 1 \<le> s \<and> s \<le> t \<and> t \<le> maxStars"
proof -
  from assms have xr: "x < maxStars * (starsWidth sdiv maxStars)" and y0: "0 \<le> y"
    and ynz: "\<not> real_of_int y < real_of_int starsWidth * (5 / 100)"
    by simp_all
  have ppos: "0 < starsWidth sdiv maxStars"
  proof (rule ccontr)
    assume "\<not> 0 < starsWidth sdiv maxStars"
    with assms(1) have "maxStars * (starsWidth sdiv maxStars) \<le> 0"
      by (simp add: mult_nonneg_nonpos)
    with y0 assms(4) show False by simp
  qed
  from ppos assms(3)
  have mono: "x div (starsWidth sdiv maxStars) \<le> y div (starsWidth sdiv maxStars)"
    by (simp add: zdiv_mono1)
  from star_formula(1) [OF assms(1) assms(2) xr assms(5), of cellWidth]
       star_formula(1) [OF assms(1) y0 assms(4) ynz, of cellWidth]
       star_formula(2) [OF assms(1) assms(2) xr assms(5)]
       star_formula(3) [OF assms(1) y0 assms(4) ynz] mono
  show ?thesis by simp
qed

text \<open>
  The theorem of C1 at a strip of 100 pixels and five stars in a cell of 140 pixels:
  25 and 99 pixels into the strip the mapper returns 2 and 5.
\<close>

theorem starAtPosition_star_range_mono_witness:
  "(1::int) \<le> 5 \<and> (0::int) \<le> 25 \<and> (25::int) \<le> 99 \<and> (99::int) < 5 * (100 sdiv 5)
   \<and> \<not> real_of_int 25 < real_of_int 100 * (5 / 100)
   \<and> starAtPosition 140 100 5 45 = Inr 2 \<and> starAtPosition 140 100 5 119 = Inr 5"
proof -
  have h4: "(99::int) < 5 * (100 sdiv 5)" by (simp add: signed_divide_int_def)
  have h5: "\<not> real_of_int 25 < real_of_int 100 * (5 / 100)" by simp
  have e1: "starAtPosition 140 100 5 45 = Inr 2"
    by (simp add: starAtPosition_def xOffset_def leftVoid_def c_div_def signed_divide_int_def)
  have e2: "starAtPosition 140 100 5 119 = Inr 5"
    by (simp add: starAtPosition_def xOffset_def leftVoid_def c_div_def signed_divide_int_def)
  from starAtPosition_star_range_mono [of 5 25 99 100 140, OF _ _ _ h4 h5] h4 h5 e1 e2
  show ?thesis by simp
qed

text \<open>
  Claim C1 as it is written fails where \<open>maxStars\<close> does not divide \<open>starsWidth\<close>: with a
  strip of 99 pixels and five stars a cell has 19 pixels, position 94 is in the fifth
  cell, and position 95, still inside the strip and outside both zones, would be in a
  sixth: the guard on the computed star returns 0 there.
\<close>

theorem starAtPosition_partial_cell_counterexample:
  "(1::int) \<le> 5 \<and> (0::int) \<le> 95 \<and> (95::int) < 99
   \<and> \<not> real_of_int 95 < real_of_int 99 * (5 / 100)
   \<and> xOffset 99 99 = 0
   \<and> starAtPosition 99 99 5 94 = Inr 5
   \<and> starAtPosition 99 99 5 95 = Inr 0"
  by (simp add: starAtPosition_def xOffset_def leftVoid_def c_div_def signed_divide_int_def)

subsection \<open>The scenario of the spec\<close>

text \<open>
  Claim C2. With a strip of 100 pixels, five stars and a centering offset of 0 the mapper
  returns 0 at position 0, 0 at position 3, 2 at position 25, 5 at position 99 and the
  sentinel at position 150.
\<close>

theorem starAtPosition_scenario:
  "xOffset cellWidth 100 = 0 \<Longrightarrow>
     starAtPosition cellWidth 100 5 0 = Inr 0 \<and>
     starAtPosition cellWidth 100 5 3 = Inr 0 \<and>
     starAtPosition cellWidth 100 5 25 = Inr 2 \<and>
     starAtPosition cellWidth 100 5 99 = Inr 5 \<and>
     starAtPosition cellWidth 100 5 150 = Inr kInvalidStarCount"
  by (simp add: starAtPosition_def leftVoid_def c_div_def signed_divide_int_def)

text \<open>The scenario in a cell that is exactly as wide as the strip.\<close>

theorem starAtPosition_scenario_witness:
  "xOffset 100 100 = 0 \<and>
     starAtPosition 100 100 5 0 = Inr 0 \<and>
     starAtPosition 100 100 5 3 = Inr 0 \<and>
     starAtPosition 100 100 5 25 = Inr 2 \<and>
     starAtPosition 100 100 5 99 = Inr 5 \<and>
     starAtPosition 100 100 5 150 = Inr kInvalidStarCount"
proof -
  have h: "xOffset 100 100 = 0" by (simp add: xOffset_def)
  from starAtPosition_scenario [OF h] h show ?thesis by simp
qed

subsection \<open>The sentinel\<close>

text \<open>
  Claim C3. The mapper shifts the position left by
  \<open>xOffset = max ((cellWidth - starsWidth) / 2) 0\<close> and returns the sentinel exactly
  when the shifted position is below \<open>leftVoid\<close> or at least \<open>starsWidth\<close>, where
  \<open>leftVoid\<close> is minus five percent of \<open>starsWidth\<close> when \<open>xOffset\<close> exceeds five
  percent of \<open>starsWidth\<close>, and 0 otherwise.
\<close>

theorem starAtPosition_sentinel_iff:
  fixes cellWidth starsWidth maxStars x0 :: int
  defines "xOff \<equiv> max ((cellWidth - starsWidth) sdiv 2) 0"
  defines "x \<equiv> x0 - xOff"
  defines "lVoid \<equiv> (if real_of_int xOff > real_of_int starsWidth * (5 / 100)
                     then real_of_int starsWidth * (- (5 / 100)) else 0)"
  shows "starAtPosition cellWidth starsWidth maxStars x0 = Inr kInvalidStarCount
         \<longleftrightarrow> (real_of_int x < lVoid \<or> starsWidth \<le> x)"
proof -
  have xo: "xOff = xOffset cellWidth starsWidth"
    by (simp add: xOff_def xOffset_def)
  have lv: "lVoid = leftVoid cellWidth starsWidth"
    by (simp add: lVoid_def leftVoid_def xo)
  have "starAtPosition cellWidth starsWidth maxStars (x + xOffset cellWidth starsWidth)
          = Inr kInvalidStarCount
        \<longleftrightarrow> (real_of_int x < leftVoid cellWidth starsWidth \<or> starsWidth \<le> x)"
    by (auto simp: starAtPosition_shifted kInvalidStarCount_def kMinStarCount_def
        split: sum.splits)
  then show ?thesis by (simp add: x_def xo lv)
qed

subsection \<open>The zero zone\<close>

text \<open>
  Claim C4. At every shifted position \<open>x\<close> with \<open>0 \<le> x < 0.05 * starsWidth\<close> the mapper
  returns exactly 0.
\<close>

theorem starAtPosition_zero_zone:
  assumes "0 \<le> x" and "real_of_int x < real_of_int starsWidth * (5 / 100)"
  shows "starAtPosition cellWidth starsWidth maxStars (x + xOffset cellWidth starsWidth) = Inr 0"
proof -
  have pos: "0 < starsWidth"
  proof (rule ccontr)
    assume "\<not> 0 < starsWidth"
    then have "real_of_int starsWidth \<le> 0" by simp
    with assms show False by simp
  qed
  from assms pos have "x < starsWidth" by simp
  moreover from pos assms(1) have "\<not> real_of_int x < leftVoid cellWidth starsWidth"
    using leftVoid_nonpos [of starsWidth cellWidth] by simp
  ultimately show ?thesis using assms(2) by (simp add: starAtPosition_shifted)
qed

text \<open>Three pixels into a strip of 100 pixels that is centered in a cell of 140.\<close>

theorem starAtPosition_zero_zone_witness:
  "(0::int) \<le> 3 \<and> real_of_int 3 < real_of_int 100 * (5 / 100)
   \<and> starAtPosition 140 100 5 23 = Inr 0"
  using starAtPosition_zero_zone [of 3 100 140 5]
  by (simp add: xOffset_def signed_divide_int_def)

subsection \<open>The divisions\<close>

text \<open>
  Claim C10. When \<open>starsWidth \<ge> maxStars \<ge> 1\<close>, both divisors of the star computation,
  \<open>maxStars\<close> and the integer quotient \<open>starsWidth / maxStars\<close>, are nonzero, and the
  mapper returns a value at every position. The precondition is needed: for a width (a
  number of pixels, not negative) below \<open>maxStars\<close> the quotient is zero, and with two
  pixels for five stars the mapper divides by zero at position 1.
\<close>

theorem starAtPosition_divisors_nonzero:
  "(1 \<le> maxStars \<and> maxStars \<le> starsWidth \<longrightarrow>
      maxStars \<noteq> 0 \<and> starsWidth sdiv maxStars \<noteq> 0
      \<and> (\<exists>r. starAtPosition cellWidth starsWidth maxStars x = Inr r))
   \<and> (0 \<le> starsWidth \<and> starsWidth < maxStars \<longrightarrow> starsWidth sdiv maxStars = 0)
   \<and> starAtPosition 2 2 5 1 = Inl DivisionByZero"
proof (intro conjI impI)
  assume a: "1 \<le> maxStars \<and> maxStars \<le> starsWidth"
  then show "maxStars \<noteq> 0" by simp
  from a perStar_pos [of maxStars starsWidth]
  show "starsWidth sdiv maxStars \<noteq> 0" by simp
  from a starAtPosition_defined [of maxStars starsWidth cellWidth x]
  show "\<exists>r. starAtPosition cellWidth starsWidth maxStars x = Inr r" by simp
next
  assume "0 \<le> starsWidth \<and> starsWidth < maxStars"
  then show "starsWidth sdiv maxStars = 0" by (simp add: sdiv_nonneg_pos)
next
  show "starAtPosition 2 2 5 1 = Inl DivisionByZero"
    by (simp add: starAtPosition_def xOffset_def leftVoid_def c_div_def signed_divide_int_def)
qed

text \<open>
  Both parts at five stars: a strip of 100 pixels has 20 pixels per star and the mapper
  returns 4 at position 80 of a cell of 140 pixels; a strip of 3 pixels has none.
\<close>

theorem starAtPosition_divisors_nonzero_witness:
  "(1::int) \<le> 5 \<and> (5::int) \<le> 100 \<and> (100::int) sdiv 5 \<noteq> 0
   \<and> starAtPosition 140 100 5 80 = Inr 4
   \<and> (0::int) \<le> 3 \<and> (3::int) < 5 \<and> (3::int) sdiv 5 = 0"
proof -
  have e: "starAtPosition 140 100 5 80 = Inr 4"
    by (simp add: starAtPosition_def xOffset_def leftVoid_def c_div_def signed_divide_int_def)
  from starAtPosition_divisors_nonzero [of 5 100 140 80]
       starAtPosition_divisors_nonzero [of 5 3 140 80] e
  show ?thesis by simp
qed

section \<open>The editor\<close>

subsection \<open>Pointer moves\<close>

text \<open>
  Claim C5. On a pointer-move event for which the mapper returns \<open>star\<close>: if \<open>star\<close> is
  the sentinel, the displayed rating is reset to the last-confirmed value; if it is a
  count different from the displayed one, the displayed count becomes \<open>star\<close> and one
  redraw is requested; if it equals the displayed count, no redraw is requested and the
  editor is left as it was. The last-confirmed value is never changed. (The handler
  tests \<open>star \<le> kInvalidStarCount\<close>; the mapper returns nothing below the sentinel.)
\<close>

theorem mouseMoveEvent_cases:
  assumes "StarEditor_starAtPosition ed (event_x event) = Inr star"
  shows "\<exists>effs ed'. mouseMoveEvent ed event = Inr (effs, ed')
          \<and> m_starCount ed' = m_starCount ed
          \<and> (if star = kInvalidStarCount
              then starCount (m_starRating ed') = m_starCount ed
              else if star \<noteq> starCount (m_starRating ed)
              then starCount (m_starRating ed') = star \<and> effs = [Update]
              else effs = [] \<and> ed' = ed)"
proof -
  from assms have "star = kInvalidStarCount \<or> star = 0
      \<or> (1 \<le> star \<and> star \<le> maxStarCount (m_starRating ed))"
    unfolding StarEditor_starAtPosition_def by (rule starAtPosition_cases)
  then have "star = kInvalidStarCount \<or> kInvalidStarCount < star"
    by (auto simp: kInvalidStarCount_def kMinStarCount_def)
  with assms show ?thesis
    by (auto simp: mouseMoveEvent_def resetRating_def setStarCount_def)
qed

text \<open>
  In the sample session the pointer at 80, that is 60 pixels into the strip, is over the
  fourth star, while the editor displays 0: the displayed count becomes 4 and a redraw
  is requested.
\<close>

theorem mouseMoveEvent_cases_witness:
  "StarEditor_starAtPosition sampleEditor (event_x (mouseAt 80)) = Inr 4
   \<and> (\<exists>effs ed'. mouseMoveEvent sampleEditor (mouseAt 80) = Inr (effs, ed')
          \<and> starCount (m_starRating ed') = 4 \<and> effs = [Update])"
proof -
  have h: "StarEditor_starAtPosition sampleEditor (event_x (mouseAt 80)) = Inr 4"
    by (simp add: StarEditor_starAtPosition_def sampleEditor_def StarEditor_new_def StarRating_new_def
        sampleOption_def mouseAt_def starAtPosition_def xOffset_def leftVoid_def c_div_def
        signed_divide_int_def)
  have "starCount (m_starRating sampleEditor) = 0"
    by (simp add: sampleEditor_def StarEditor_new_def StarRating_new_def kMinStarCount_def)
  with mouseMoveEvent_cases [OF h] h show ?thesis
    by (auto simp: kInvalidStarCount_def kMinStarCount_def)
qed

subsection \<open>Pointer release\<close>

text \<open>
  Claim C6. On a pointer-release event, whatever the button and whatever the displayed
  rating, the editor emits \<open>editingFinished\<close> exactly once (and nothing else) and is
  left unchanged, the displayed rating included.
\<close>

theorem mouseReleaseEvent_emits_once:
  "fst (mouseReleaseEvent ed event) = [EditingFinished]
   \<and> count_list (fst (mouseReleaseEvent ed event)) EditingFinished = 1
   \<and> snd (mouseReleaseEvent ed event) = ed
   \<and> starCount (m_starRating (snd (mouseReleaseEvent ed event))) = starCount (m_starRating ed)"
  by (simp add: mouseReleaseEvent_def)

subsection \<open>Painting\<close>

text \<open>
  Claim C7, as the code has it. On every paint the rectangle of the style option becomes
  the current rectangle of the widget and the mouse-over flag is set; the selected flag
  is set when the hosting view has a selection model that reports the edited index as
  selected, and is otherwise left as it was (a flag that is set is never cleared); no
  other flag and no other part of the editor changes; the drawing is that of
  \<open>renderHelper\<close> on the view, the refreshed option and the rating.
\<close>

theorem paintEvent_refresh:
  "case paintEvent ed widgetRect of
     (effs, ed') \<Rightarrow>
       rect (m_styleOption ed') = widgetRect
       \<and> State_MouseOver \<in> state (m_styleOption ed')
       \<and> (State_Selected \<in> state (m_styleOption ed')
            \<longleftrightarrow> State_Selected \<in> state (m_styleOption ed) \<or> viewSelects ed)
       \<and> state (m_styleOption ed') - {State_MouseOver, State_Selected}
           = state (m_styleOption ed) - {State_MouseOver, State_Selected}
       \<and> palette (m_styleOption ed') = palette (m_styleOption ed)
       \<and> effs = [Painted (renderHelper (m_pTableView ed) (m_styleOption ed') (m_starRating ed))]
       \<and> ed' = ed\<lparr>m_styleOption := m_styleOption ed'\<rparr>"
  by (auto simp: paintEvent_def viewSelects_def Let_def split: option.splits)

text \<open>
  Claim C7 as it is written, the selected flag derived anew from the selection model,
  fails for an editor whose style option carries the selected flag while the selection
  of the view is empty: after the paint the flag is still set.
\<close>

theorem paintEvent_stale_selected_counterexample:
  "State_Selected \<in> state (m_styleOption (snd (paintEvent
       (sampleEditor\<lparr>m_styleOption := sampleOption\<lparr>state := {State_Enabled, State_Selected}\<rparr>\<rparr>)
       \<lparr>rect_x = 0, rect_y = 0, rect_width = 140, rect_height = 20\<rparr>)))
   \<and> m_pTableView sampleEditor
       = Some \<lparr>style = Some (QStyle 0), selectionModel = Some \<lparr>selectedIndexes = {}\<rparr>\<rparr>
   \<and> m_index sampleEditor = (3, 7)
   \<and> \<not> isSelected \<lparr>selectedIndexes = {}\<rparr> (3, 7)"
  by (simp add: paintEvent_def sampleEditor_def sampleView_def sampleOption_def
      StarEditor_new_def StarRating_new_def isSelected_def Let_def)

subsection \<open>The brush of the stars\<close>

text \<open>
  Claim C8. The render helper sets the brush once. The color group is Disabled when the
  enabled flag is unset, Inactive when enabled is set and active is unset, and Normal
  otherwise; the brush is the highlighted-text color of the palette for that group when
  the selected flag is set, and the text color of the palette for that group otherwise.
\<close>

theorem renderHelper_brush:
  "filter is_SetBrush (renderHelper pTableView option pStarRating) =
     [SetBrush (palette option
        (if \<not> (State_Enabled \<in> state option) then Disabled
         else if \<not> (State_Active \<in> state option) then Inactive
         else Normal)
        (if State_Selected \<in> state option then HighlightedText else Text))]"
  by (simp add: renderHelper_def Let_def split: option.splits)

subsection \<open>The displayed count over the lifetime\<close>

lemma new_countsInRange:
  "0 \<le> maxStars \<Longrightarrow> countsInRange (StarEditor_new pTableView index option maxStars hint)"
  by (simp add: countsInRange_def StarEditor_new_def StarRating_new_def kMinStarCount_def)

lemma handle_countsInRange:
  assumes "countsInRange ed" and "handle ed e = Inr (effs, ed')"
  shows "countsInRange ed' \<and> maxStarCount (m_starRating ed') = maxStarCount (m_starRating ed)
         \<and> m_starCount ed' = m_starCount ed"
proof (cases e)
  case (MouseMove ev)
  with assms(2) obtain star where
    s: "StarEditor_starAtPosition ed (event_x ev) = Inr star"
    by (auto simp: mouseMoveEvent_def split: sum.splits)
  then have c: "star = kInvalidStarCount \<or> star = 0
      \<or> (1 \<le> star \<and> star \<le> maxStarCount (m_starRating ed))"
    unfolding StarEditor_starAtPosition_def by (rule starAtPosition_cases)
  from assms MouseMove s c show ?thesis
    by (auto simp: mouseMoveEvent_def resetRating_def setStarCount_def countsInRange_def
        kInvalidStarCount_def kMinStarCount_def split: if_splits)
next
  case Leave
  with assms show ?thesis
    by (auto simp: leaveEvent_def resetRating_def setStarCount_def countsInRange_def)
next
  case (MouseRelease ev)
  with assms show ?thesis by (auto simp: mouseReleaseEvent_def)
next
  case (Paint r)
  with assms show ?thesis
    by (auto simp: paintEvent_def Let_def countsInRange_def split: option.splits)
qed

lemma run_countsInRange:
  "countsInRange ed \<Longrightarrow> run ed evs = Inr (effs, ed') \<Longrightarrow>
     countsInRange ed' \<and> maxStarCount (m_starRating ed') = maxStarCount (m_starRating ed)
     \<and> m_starCount ed' = m_starCount ed"
proof (induction evs arbitrary: ed effs)
  case Nil
  then show ?case by simp
next
  case (Cons e es)
  from Cons.prems(2) obtain effs1 ed1 effs2 where
    h: "handle ed e = Inr (effs1, ed1)" and r: "run ed1 es = Inr (effs2, ed')"
    by (auto split: sum.splits)
  from handle_countsInRange [OF Cons.prems(1) h]
  have c1: "countsInRange ed1"
    and m1: "maxStarCount (m_starRating ed1) = maxStarCount (m_starRating ed)"
    and l1: "m_starCount ed1 = m_starCount ed"
    by simp_all
  from Cons.IH [OF c1 r] m1 l1 show ?case by simp
qed

text \<open>
  A pointer move for which the mapper returns the sentinel does what \<open>resetRating\<close>
  does: the displayed count becomes the last-confirmed count.
\<close>

lemma mouseMoveEvent_sentinel:
  assumes "StarEditor_starAtPosition ed (event_x event) = Inr kInvalidStarCount"
  shows "mouseMoveEvent ed event = Inr (resetRating ed)"
    and "starCount (m_starRating (snd (resetRating ed))) = m_starCount ed"
    and "m_starCount (snd (resetRating ed)) = m_starCount ed"
  using assms by (simp_all add: mouseMoveEvent_def resetRating_def setStarCount_def)

text \<open>
  A pointer move for which the mapper returns anything else stores that value or
  nothing: the displayed count afterwards is what the mapper returned.
\<close>

lemma mouseMoveEvent_count:
  assumes "StarEditor_starAtPosition ed (event_x event) = Inr star"
    and "star \<noteq> kInvalidStarCount"
  shows "\<exists>effs1 ed1. mouseMoveEvent ed event = Inr (effs1, ed1)
           \<and> starCount (m_starRating ed1) = star"
proof -
  from assms(1) have "star = kInvalidStarCount \<or> star = 0
      \<or> (1 \<le> star \<and> star \<le> maxStarCount (m_starRating ed))"
    unfolding StarEditor_starAtPosition_def by (rule starAtPosition_cases)
  with assms(2) have "\<not> star \<le> kInvalidStarCount"
    by (auto simp: kInvalidStarCount_def kMinStarCount_def)
  with assms(1) show ?thesis
    by (simp add: mouseMoveEvent_def setStarCount_def)
qed

text \<open>
  An editor whose strip has at least one pixel per star handles every event, and every
  sequence of events, without a fault.
\<close>

lemma handle_defined:
  assumes "1 \<le> maxStarCount (m_starRating ed)"
    and "maxStarCount (m_starRating ed) \<le> size_width (sizeHint (m_starRating ed))"
  shows "\<exists>effs ed'. handle ed e = Inr (effs, ed')
           \<and> maxStarCount (m_starRating ed') = maxStarCount (m_starRating ed)
           \<and> sizeHint (m_starRating ed') = sizeHint (m_starRating ed)"
proof (cases e)
  case (MouseMove ev)
  from starAtPosition_defined [OF assms] obtain r where
    "StarEditor_starAtPosition ed (event_x ev) = Inr r"
    unfolding StarEditor_starAtPosition_def by blast
  with MouseMove show ?thesis
    by (simp add: mouseMoveEvent_def resetRating_def setStarCount_def)
next
  case Leave
  then show ?thesis by (simp add: leaveEvent_def resetRating_def setStarCount_def)
next
  case (MouseRelease ev)
  then show ?thesis by (simp add: mouseReleaseEvent_def)
next
  case (Paint r)
  then show ?thesis by (simp add: paintEvent_def Let_def split: option.splits)
qed

lemma run_defined:
  "1 \<le> maxStarCount (m_starRating ed) \<Longrightarrow>
   maxStarCount (m_starRating ed) \<le> size_width (sizeHint (m_starRating ed)) \<Longrightarrow>
     \<exists>effs ed'. run ed evs = Inr (effs, ed')"
proof (induction evs arbitrary: ed)
  case Nil
  then show ?case by simp
next
  case (Cons e es)
  from handle_defined [OF Cons.prems, of e] obtain effs1 ed1 where
    h: "handle ed e = Inr (effs1, ed1)"
    and m: "maxStarCount (m_starRating ed1) = maxStarCount (m_starRating ed)"
    and z: "sizeHint (m_starRating ed1) = sizeHint (m_starRating ed)"
    by blast
  from Cons.prems m z have "1 \<le> maxStarCount (m_starRating ed1)"
    and "maxStarCount (m_starRating ed1) \<le> size_width (sizeHint (m_starRating ed1))"
    by simp_all
  from Cons.IH [OF this] obtain effs2 ed2 where "run ed1 es = Inr (effs2, ed2)"
    by blast
  with h show ?case by simp
qed

text \<open>
  Claim C9. Let the displayed count and the last-confirmed count of an editor lie in
  \<open>[0, maxStarCount]\<close>, as they do after construction (\<open>new_countsInRange\<close>). Then
  after every sequence of pointer moves, leaves, releases and paints the displayed count
  lies in \<open>[0, maxStarCount]\<close>, with \<open>maxStarCount\<close> and the last-confirmed count as
  they were; in particular the displayed count is never the sentinel. The sentinel is
  only a return value of the mapper: a further pointer move for which the mapper
  returns the sentinel resets the displayed count to the last-confirmed count, and a
  pointer move for which the mapper returns any other value leaves that value, which is
  not the sentinel, as the displayed count.
\<close>

theorem lifetime_counts_in_range:
  assumes "countsInRange ed" and "run ed evs = Inr (effs, ed')"
  shows "0 \<le> starCount (m_starRating ed')
         \<and> starCount (m_starRating ed') \<le> maxStarCount (m_starRating ed')
         \<and> starCount (m_starRating ed') \<noteq> kInvalidStarCount
         \<and> maxStarCount (m_starRating ed') = maxStarCount (m_starRating ed)
         \<and> m_starCount ed' = m_starCount ed
         \<and> (StarEditor_starAtPosition ed' (event_x event) = Inr kInvalidStarCount \<longrightarrow>
              (\<exists>effs1 ed1. mouseMoveEvent ed' event = Inr (effs1, ed1)
                 \<and> starCount (m_starRating ed1) = m_starCount ed
                 \<and> m_starCount ed1 = m_starCount ed
                 \<and> starCount (m_starRating ed1) \<noteq> kInvalidStarCount))
         \<and> (\<forall>star. StarEditor_starAtPosition ed' (event_x event) = Inr star
                \<and> star \<noteq> kInvalidStarCount \<longrightarrow>
              (\<exists>effs1 ed1. mouseMoveEvent ed' event = Inr (effs1, ed1)
                 \<and> starCount (m_starRating ed1) = star))"
proof -
  from run_countsInRange [OF assms]
  have c: "countsInRange ed'"
    and m: "maxStarCount (m_starRating ed') = maxStarCount (m_starRating ed)"
    and l: "m_starCount ed' = m_starCount ed"
    by simp_all
  from c have inv: "0 \<le> starCount (m_starRating ed')
      \<and> starCount (m_starRating ed') \<le> maxStarCount (m_starRating ed')
      \<and> starCount (m_starRating ed') \<noteq> kInvalidStarCount"
    by (simp add: countsInRange_def kInvalidStarCount_def kMinStarCount_def)
  from c l have conf: "m_starCount ed \<noteq> kInvalidStarCount"
    by (simp add: countsInRange_def kInvalidStarCount_def kMinStarCount_def)
  have reset: "\<exists>effs1 ed1. mouseMoveEvent ed' event = Inr (effs1, ed1)
                 \<and> starCount (m_starRating ed1) = m_starCount ed
                 \<and> m_starCount ed1 = m_starCount ed
                 \<and> starCount (m_starRating ed1) \<noteq> kInvalidStarCount"
    if s: "StarEditor_starAtPosition ed' (event_x event) = Inr kInvalidStarCount"
  proof -
    from mouseMoveEvent_sentinel [OF s] l conf
    have "mouseMoveEvent ed' event
            = Inr (fst (resetRating ed'), snd (resetRating ed'))"
      and "starCount (m_starRating (snd (resetRating ed'))) = m_starCount ed"
      and "m_starCount (snd (resetRating ed')) = m_starCount ed"
      and "starCount (m_starRating (snd (resetRating ed'))) \<noteq> kInvalidStarCount"
      by simp_all
    then show ?thesis by blast
  qed
  have store: "\<exists>effs1 ed1. mouseMoveEvent ed' event = Inr (effs1, ed1)
                 \<and> starCount (m_starRating ed1) = star"
    if "StarEditor_starAtPosition ed' (event_x event) = Inr star \<and> star \<noteq> kInvalidStarCount"
    for star
    using that mouseMoveEvent_count [of ed' event star] by blast
  from inv m l reset store show ?thesis by blast
qed

text \<open>
  The sample session: the pointer moves over the fourth star, and the editor displays 4
  while the last-confirmed count is still 0. A further move to position 200, right of
  the strip, makes the mapper return the sentinel, and the editor displays 0 again; a
  further move to position 45 instead, over the second star, would make it display 2.
\<close>

theorem lifetime_counts_in_range_witness:
  "countsInRange sampleEditor
   \<and> (\<exists>ed'. run sampleEditor [MouseMove (mouseAt 80)] = Inr ([Update], ed')
           \<and> starCount (m_starRating ed') = 4
           \<and> starCount (m_starRating ed') \<le> maxStarCount (m_starRating ed')
           \<and> starCount (m_starRating ed') \<noteq> kInvalidStarCount
           \<and> m_starCount ed' = 0
           \<and> StarEditor_starAtPosition ed' (event_x (mouseAt 200)) = Inr kInvalidStarCount
           \<and> (\<exists>effs1 ed1. mouseMoveEvent ed' (mouseAt 200) = Inr (effs1, ed1)
                 \<and> starCount (m_starRating ed1) = 0
                 \<and> starCount (m_starRating ed1) \<noteq> kInvalidStarCount)
           \<and> StarEditor_starAtPosition ed' (event_x (mouseAt 45)) = Inr 2
           \<and> (\<exists>effs1 ed1. mouseMoveEvent ed' (mouseAt 45) = Inr (effs1, ed1)
                 \<and> starCount (m_starRating ed1) = 2))"
proof -
  have c: "countsInRange sampleEditor"
    by (simp add: sampleEditor_def new_countsInRange)
  have l0: "m_starCount sampleEditor = 0"
    by (simp add: sampleEditor_def StarEditor_new_def kMinStarCount_def)
  define mid where
    "mid = sampleEditor\<lparr>m_starRating := setStarCount (m_starRating sampleEditor) 4\<rparr>"
  have r: "run sampleEditor [MouseMove (mouseAt 80)] = Inr ([Update], mid)"
    by (simp add: mid_def sampleEditor_def StarEditor_new_def StarRating_new_def
        sampleOption_def mouseAt_def mouseMoveEvent_def setStarCount_def
        StarEditor_starAtPosition_def starAtPosition_def xOffset_def leftVoid_def c_div_def
        signed_divide_int_def kInvalidStarCount_def kMinStarCount_def)
  have d: "starCount (m_starRating mid) = 4"
    by (simp add: mid_def setStarCount_def)
  have s: "StarEditor_starAtPosition mid (event_x (mouseAt 200)) = Inr kInvalidStarCount"
    by (simp add: mid_def sampleEditor_def StarEditor_new_def StarRating_new_def
        sampleOption_def mouseAt_def setStarCount_def
        StarEditor_starAtPosition_def starAtPosition_def xOffset_def leftVoid_def
        signed_divide_int_def kInvalidStarCount_def kMinStarCount_def)
  have t: "StarEditor_starAtPosition mid (event_x (mouseAt 45)) = Inr 2"
    by (simp add: mid_def sampleEditor_def StarEditor_new_def StarRating_new_def
        sampleOption_def mouseAt_def setStarCount_def
        StarEditor_starAtPosition_def starAtPosition_def xOffset_def leftVoid_def c_div_def
        signed_divide_int_def kInvalidStarCount_def kMinStarCount_def)
  have t': "(2::int) \<noteq> kInvalidStarCount"
    by (simp add: kInvalidStarCount_def kMinStarCount_def)
  from lifetime_counts_in_range [OF c r, of "mouseAt 200"] s l0
  have a: "starCount (m_starRating mid) \<le> maxStarCount (m_starRating mid)
      \<and> starCount (m_starRating mid) \<noteq> kInvalidStarCount
      \<and> m_starCount mid = 0
      \<and> (\<exists>effs1 ed1. mouseMoveEvent mid (mouseAt 200) = Inr (effs1, ed1)
             \<and> starCount (m_starRating ed1) = 0
             \<and> starCount (m_starRating ed1) \<noteq> kInvalidStarCount)"
    by auto
  from lifetime_counts_in_range [OF c r, of "mouseAt 45"] t t'
  have b: "\<exists>effs1 ed1. mouseMoveEvent mid (mouseAt 45) = Inr (effs1, ed1)
             \<and> starCount (m_starRating ed1) = 2"
    by blast
  from c r d s t a b show ?thesis by blast
qed

end
